theory Spec2Isabelle
  imports Complex_Main "HOL-Library.Word"
begin

section \<open>Python strings\<close>

text \<open>
  A Python \<open>str\<close> is a sequence of Unicode code points. It is modelled as a list of
  code point numbers, so that the bullet character U+2022 and the Unicode white space
  that \<open>str.strip\<close> removes are what they are in the program. ASCII literals are
  written \<open>ascii ''...''\<close>.
\<close>

type_synonym ustr = "nat list"

definition ascii :: "string \<Rightarrow> ustr" where
  "ascii s = map of_char s"

definition NL :: nat where
  "NL = 10"

text \<open>The characters for which Python's \<open>str.isspace\<close> holds; \<open>strip()\<close> removes them.\<close>

definition isspace :: "nat \<Rightarrow> bool" where
  "isspace c =
     ((9 \<le> c \<and> c \<le> 13) \<or> (28 \<le> c \<and> c \<le> 32) \<or> c = 133 \<or> c = 160 \<or> c = 5760
      \<or> (8192 \<le> c \<and> c \<le> 8202) \<or> c = 8232 \<or> c = 8233 \<or> c = 8239 \<or> c = 8287
      \<or> c = 12288)"

text \<open>\<open>s.strip()\<close>: white space removed at both ends.\<close>

definition strip :: "ustr \<Rightarrow> ustr" where
  "strip s = rev (dropWhile isspace (rev (dropWhile isspace s)))"

text \<open>\<open>sep.join(xs)\<close>.\<close>

fun join :: "ustr \<Rightarrow> ustr list \<Rightarrow> ustr" where
  "join sep [] = []"
| "join sep [x] = x"
| "join sep (x # y # ys) = x @ sep @ join sep (y # ys)"

text \<open>\<open>s.split("\n")\<close>: never empty, \<open>"".split("\n") == [""]\<close>.\<close>

fun split_nl :: "ustr \<Rightarrow> ustr list" where
  "split_nl [] = [[]]"
| "split_nl (c # cs) =
     (if c = NL then [] # split_nl cs
      else (case split_nl cs of [] \<Rightarrow> [[c]] | l # ls \<Rightarrow> (c # l) # ls))"

section \<open>The record model\<close>

record Skill =
  skill_name :: ustr
  level :: ustr

record ExperienceItem =
  role :: ustr
  company :: ustr
  period :: ustr
  bullets :: "ustr list"

record EducationItem =
  degree :: ustr
  school :: ustr
  edu_period :: ustr
  details :: ustr

record ResumeData =
  name :: ustr
  title :: ustr
  email :: ustr
  phone :: ustr
  location :: ustr
  photo :: "ustr option"
  summary :: ustr
  experience :: "ExperienceItem list"
  education :: "EducationItem list"
  skills :: "Skill list"
  achievements :: "ustr list"

record ExportPayload =
  data :: ResumeData
  template :: ustr
  color :: ustr
  font :: ustr

section \<open>The text lineariser\<close>

text \<open>The bullet prefix of \<open>f"  \<bullet> {b}"\<close>: two spaces, U+2022, one space.\<close>

definition bullet :: "ustr \<Rightarrow> ustr" where
  "bullet b = [32, 32, 8226, 32] @ b"

text \<open>The list comprehension \<open>[x for x in xs if x]\<close> on strings.\<close>

definition nonempty :: "ustr list \<Rightarrow> ustr list" where
  "nonempty xs = filter (\<lambda>x. x \<noteq> []) xs"

text \<open>
  The body of the loop over \<open>data.experience\<close>: the joined line of the entry, then a
  bullet line for every bullet that is not blank.
\<close>

fun experience_loop :: "ustr list \<Rightarrow> ExperienceItem list \<Rightarrow> ustr list" where
  "experience_loop parts [] = parts"
| "experience_loop parts (e # es) =
     (let line = join (ascii '' - '') (nonempty [role e, company e, period e]);
          parts = parts @ [line];
          parts = parts @ map bullet (filter (\<lambda>b. strip b \<noteq> []) (bullets e))
      in experience_loop parts es)"

fun education_loop :: "ustr list \<Rightarrow> EducationItem list \<Rightarrow> ustr list" where
  "education_loop parts [] = parts"
| "education_loop parts (ed # eds) =
     (let line = join (ascii '' - '') (nonempty [degree ed, school ed, edu_period ed]);
          parts = parts @ [line];
          parts = (if details ed \<noteq> [] then parts @ [bullet (details ed)] else parts)
      in education_loop parts eds)"

text \<open>\<open>s.name + (f" ({s.level})" if s.level else "")\<close>.\<close>

definition skill_text :: "Skill \<Rightarrow> ustr" where
  "skill_text s =
     skill_name s @ (if level s \<noteq> [] then ascii '' ('' @ level s @ ascii '')'' else [])"

definition skills_line :: "Skill list \<Rightarrow> ustr" where
  "skills_line ss = join (ascii '', '') (map skill_text (filter (\<lambda>s. skill_name s \<noteq> []) ss))"

text \<open>
  The list \<open>parts\<close> of \<open>_format_text_resume\<close> when the function reaches its
  \<open>return\<close>: every \<open>parts.append\<close> of the source is one step of the chain.
\<close>

definition resume_parts :: "ResumeData \<Rightarrow> ustr list" where
  "resume_parts d =
     (let parts = [];
          header = (if name d \<noteq> [] then name d else ascii ''Your Name'');
          sub = join (ascii '' | '') (nonempty [title d, email d, phone d, location d]);
          parts = parts @ [header];
          parts = (if sub \<noteq> [] then parts @ [sub] else parts);
          parts = (if summary d \<noteq> []
                   then parts @ [NL # ascii ''Summary'' @ NL # summary d] else parts);
          parts = (if experience d \<noteq> []
                   then experience_loop (parts @ [NL # ascii ''Experience'']) (experience d)
                   else parts);
          parts = (if education d \<noteq> []
                   then education_loop (parts @ [NL # ascii ''Education'']) (education d)
                   else parts);
          parts = (if skills d \<noteq> []
                   then (let skills_line = skills_line (skills d)
                         in if skills_line \<noteq> []
                            then parts @ [NL # ascii ''Skills'' @ NL # skills_line]
                            else parts)
                   else parts);
          parts = (if achievements d \<noteq> []
                   then (parts @ [NL # ascii ''Achievements''])
                        @ map bullet (filter (\<lambda>a. strip a \<noteq> []) (achievements d))
                   else parts)
      in parts)"

text \<open>\<open>_format_text_resume\<close>: \<open>"\n".join(parts).strip() + "\n"\<close>.\<close>

definition format_text_resume :: "ResumeData \<Rightarrow> ustr" where
  "format_text_resume d = strip (join [NL] (resume_parts d)) @ [NL]"

section \<open>The plain-text exporter\<close>

datatype error = UnicodeEncodeError | AttributeError | TypeError | LibraryError

type_synonym byte = "8 word"

text \<open>
  \<open>text.encode("utf-8")\<close>. A surrogate code point cannot be encoded: Python raises
  \<open>UnicodeEncodeError\<close>. The code points of a Python string are below 1114112, so
  the last branch yields a byte sequence of four.
\<close>

definition utf8_char :: "nat \<Rightarrow> error + byte list" where
  "utf8_char c =
     (if c < 128 then Inr [of_nat c]
      else if c < 2048 then Inr [of_nat (192 + c div 64), of_nat (128 + c mod 64)]
      else if 55296 \<le> c \<and> c \<le> 57343 then Inl UnicodeEncodeError
      else if c < 65536
        then Inr [of_nat (224 + c div 4096), of_nat (128 + c div 64 mod 64),
                  of_nat (128 + c mod 64)]
      else Inr [of_nat (240 + c div 262144), of_nat (128 + c div 4096 mod 64),
                of_nat (128 + c div 64 mod 64), of_nat (128 + c mod 64)])"

fun encode_utf8 :: "ustr \<Rightarrow> error + byte list" where
  "encode_utf8 [] = Inr []"
| "encode_utf8 (c # cs) =
     (case utf8_char c of
        Inl e \<Rightarrow> Inl e
      | Inr bs \<Rightarrow> (case encode_utf8 cs of Inl e \<Rightarrow> Inl e | Inr rest \<Rightarrow> Inr (bs @ rest)))"

text \<open>A \<open>StreamingResponse\<close>: the bytes streamed, the media type and the headers.\<close>

record 'b StreamingResponse =
  body :: 'b
  media_type :: ustr
  content_disposition :: ustr

definition export_txt :: "ExportPayload \<Rightarrow> error + byte list StreamingResponse" where
  "export_txt payload =
     (let text = format_text_resume (data payload)
      in case encode_utf8 text of
           Inl e \<Rightarrow> Inl e
         | Inr bio \<Rightarrow>
             Inr \<lparr>body = bio, media_type = ascii ''text/plain'',
                  content_disposition = ascii ''attachment; filename=resume.txt''\<rparr>)"

section \<open>The word-document exporter\<close>

text \<open>
  The calls \<open>export_docx\<close> makes on the document object, in order. A paragraph carries
  the style the source assigns to it, if it assigns one.
\<close>

datatype docx_op =
    NormalFont ustr nat
  | AddHeading ustr nat
  | AddParagraph ustr "ustr option"

fun docx_experience_loop :: "docx_op list \<Rightarrow> ExperienceItem list \<Rightarrow> docx_op list" where
  "docx_experience_loop doc [] = doc"
| "docx_experience_loop doc (e # es) =
     (let line = join (ascii '' - '') (nonempty [role e, company e, period e]);
          doc = doc @ [AddParagraph line None];
          doc = doc @ map (\<lambda>b. AddParagraph b (Some (ascii ''List Bullet'')))
                        (filter (\<lambda>b. strip b \<noteq> []) (bullets e))
      in docx_experience_loop doc es)"

fun docx_education_loop :: "docx_op list \<Rightarrow> EducationItem list \<Rightarrow> docx_op list" where
  "docx_education_loop doc [] = doc"
| "docx_education_loop doc (ed # eds) =
     (let line = join (ascii '' - '') (nonempty [degree ed, school ed, edu_period ed]);
          doc = doc @ [AddParagraph line None];
          doc = (if details ed \<noteq> [] then doc @ [AddParagraph (details ed) None] else doc)
      in docx_education_loop doc eds)"

definition docx_document :: "ResumeData \<Rightarrow> docx_op list" where
  "docx_document d =
     (let doc = [NormalFont (ascii ''Inter'') 10];
          doc = doc @ [AddHeading (if name d \<noteq> [] then name d else ascii ''Your Name'') 0];
          sub = join (ascii '' | '') (nonempty [title d, email d, phone d, location d]);
          doc = (if sub \<noteq> [] then doc @ [AddParagraph sub (Some (ascii ''Normal''))] else doc);
          doc = (if summary d \<noteq> []
                 then doc @ [AddHeading (ascii ''Summary'') 1, AddParagraph (summary d) None]
                 else doc);
          doc = (if experience d \<noteq> []
                 then docx_experience_loop (doc @ [AddHeading (ascii ''Experience'') 1])
                        (experience d)
                 else doc);
          doc = (if education d \<noteq> []
                 then docx_education_loop (doc @ [AddHeading (ascii ''Education'') 1])
                        (education d)
                 else doc);
          doc = (if skills d \<noteq> []
                 then doc @ [AddHeading (ascii ''Skills'') 1,
                             AddParagraph (skills_line (skills d)) None]
                 else doc);
          doc = (if achievements d \<noteq> []
                 then (doc @ [AddHeading (ascii ''Achievements'') 1])
                      @ map (\<lambda>a. AddParagraph a (Some (ascii ''List Bullet'')))
                          (filter (\<lambda>a. strip a \<noteq> []) (achievements d))
                 else doc)
      in doc)"

text \<open>
  \<open>doc.save(buf)\<close> belongs to the document library, which is not part of the
  repository: the serialiser is a parameter, a function from the document built to its
  bytes or to a failure of the library.
\<close>

definition export_docx ::
  "(docx_op list \<Rightarrow> error + byte list) \<Rightarrow> ExportPayload
   \<Rightarrow> error + byte list StreamingResponse" where
  "export_docx save payload =
     (let d = data payload
      in case save (docx_document d) of
           Inl e \<Rightarrow> Inl e
         | Inr buf \<Rightarrow>
             Inr \<lparr>body = buf,
                  media_type = ascii
                    ''application/vnd.openxmlformats-officedocument.wordprocessingml.document'',
                  content_disposition = ascii ''attachment; filename=resume.docx''\<rparr>)"

section \<open>The PDF exporter\<close>

text \<open>The calls \<open>export_pdf\<close> makes on the canvas, in order.\<close>

datatype pdf_op =
    SetFont ustr nat
  | DrawString int int ustr
  | ShowPage
  | Save

text \<open>
  Modelled from the spec: the page size \<open>letter\<close>, which the source imports from the PDF
  library and does not define. A letter-sized page is 8.5 by 11 inches, 612 by 792
  points. The cursor only ever holds whole numbers of points, so it is an \<open>int\<close>.
\<close>

definition letter :: "int \<times> int" where
  "letter = (612, 792)"

text \<open>
  The library's \<open>simpleSplit(text, fontName, fontSize, maxWidth)\<close> is not part of the
  repository either: the exporter takes it as a parameter.
\<close>

type_synonym splitter = "ustr \<Rightarrow> ustr \<Rightarrow> nat \<Rightarrow> int \<Rightarrow> ustr list"

definition headings :: "ustr list" where
  "headings =
     [ascii ''Summary'', ascii ''Experience'', ascii ''Education'', ascii ''Skills'',
      ascii ''Achievements'']"

text \<open>The inner loop \<open>for w in wrapped\<close>: draw, then move the cursor down by 14.\<close>

fun draw_wrapped :: "int \<Rightarrow> pdf_op list \<times> int \<Rightarrow> ustr list \<Rightarrow> pdf_op list \<times> int" where
  "draw_wrapped x_margin (c, y) [] = (c, y)"
| "draw_wrapped x_margin (c, y) (w # ws) =
     draw_wrapped x_margin (c @ [DrawString x_margin y w], y - 14) ws"

text \<open>One pass of the loop \<open>for line in lines\<close>, on the canvas and the cursor.\<close>

definition pdf_line :: "splitter \<Rightarrow> pdf_op list \<times> int \<Rightarrow> ustr \<Rightarrow> pdf_op list \<times> int" where
  "pdf_line simpleSplit cy line =
     (let (width, height) = letter;
          x_margin = 40;
          (c, y) = cy;
          (c, y) = (if y < 60
                    then (c @ [ShowPage, SetFont (ascii ''Helvetica'') 11], height - 40)
                    else (c, y))
      in if strip line \<in> set headings
         then (c @ [SetFont (ascii ''Helvetica-Bold'') 12, DrawString x_margin y line,
                    SetFont (ascii ''Helvetica'') 11],
               y - 18)
         else draw_wrapped x_margin (c, y)
                (simpleSplit line (ascii ''Helvetica'') 11 (width - 2 * x_margin)))"

definition pdf_canvas :: "splitter \<Rightarrow> ExportPayload \<Rightarrow> pdf_op list" where
  "pdf_canvas simpleSplit payload =
     (let text = format_text_resume (data payload);
          (width, height) = letter;
          y = height - 40;
          c = [SetFont (ascii ''Helvetica-Bold'') 14];
          lines = split_nl text;
          (c, y) = foldl (pdf_line simpleSplit) (c, y) lines
      in c @ [ShowPage, Save])"

text \<open>The bytes the canvas writes are the library's: its serialiser is a parameter.\<close>

definition export_pdf ::
  "splitter \<Rightarrow> (pdf_op list \<Rightarrow> error + byte list) \<Rightarrow> ExportPayload
   \<Rightarrow> error + byte list StreamingResponse" where
  "export_pdf simpleSplit save payload =
     (case save (pdf_canvas simpleSplit payload) of
        Inl e \<Rightarrow> Inl e
      | Inr buf \<Rightarrow>
          Inr \<lparr>body = buf, media_type = ascii ''application/pdf'',
               content_disposition = ascii ''attachment; filename=resume.pdf''\<rparr>)"

section \<open>The suggestion generator\<close>










section \<open>Auxiliary definitions for the statements\<close>

subsection \<open>What each section contributes to \<open>parts\<close>\<close>

definition header :: "ResumeData \<Rightarrow> ustr" where
  "header d = (if name d \<noteq> [] then name d else ascii ''Your Name'')"

definition sub_part :: "ResumeData \<Rightarrow> ustr list" where
  "sub_part d =
     (let sub = join (ascii '' | '') (nonempty [title d, email d, phone d, location d])
      in if sub \<noteq> [] then [sub] else [])"

definition summary_part :: "ResumeData \<Rightarrow> ustr list" where
  "summary_part d =
     (if summary d \<noteq> [] then [NL # ascii ''Summary'' @ NL # summary d] else [])"

definition experience_entry :: "ExperienceItem \<Rightarrow> ustr list" where
  "experience_entry e =
     join (ascii '' - '') (nonempty [role e, company e, period e])
     # map bullet (filter (\<lambda>b. strip b \<noteq> []) (bullets e))"

definition education_entry :: "EducationItem \<Rightarrow> ustr list" where
  "education_entry ed =
     join (ascii '' - '') (nonempty [degree ed, school ed, edu_period ed])
     # (if details ed \<noteq> [] then [bullet (details ed)] else [])"

definition experience_part :: "ResumeData \<Rightarrow> ustr list" where
  "experience_part d =
     (if experience d \<noteq> []
      then (NL # ascii ''Experience'') # concat (map experience_entry (experience d))
      else [])"

definition education_part :: "ResumeData \<Rightarrow> ustr list" where
  "education_part d =
     (if education d \<noteq> []
      then (NL # ascii ''Education'') # concat (map education_entry (education d))
      else [])"

definition skills_part :: "ResumeData \<Rightarrow> ustr list" where
  "skills_part d =
     (if skills d \<noteq> [] \<and> skills_line (skills d) \<noteq> []
      then [NL # ascii ''Skills'' @ NL # skills_line (skills d)] else [])"

definition achievements_part :: "ResumeData \<Rightarrow> ustr list" where
  "achievements_part d =
     (if achievements d \<noteq> []
      then (NL # ascii ''Achievements'')
           # map bullet (filter (\<lambda>a. strip a \<noteq> []) (achievements d))
      else [])"

subsection \<open>Reading a canvas\<close>


text \<open>The draws of the inner loop in closed form: sub-line \<open>i\<close> at \<open>y - 14 * i\<close>.\<close>

definition sub_draws :: "int \<Rightarrow> int \<Rightarrow> ustr list \<Rightarrow> pdf_op list" where
  "sub_draws x y ws = map (\<lambda>(i, w). DrawString x (y - 14 * int i) w) (enumerate 0 ws)"

text \<open>
  A wrapper for concrete runs: one sub-line per word, words being separated by white
  space. A greedy word wrapper returns the same on an empty line, on a line of one
  word, and on a line of which no two neighbouring words fit the width together.
\<close>

fun words_acc :: "ustr \<Rightarrow> ustr \<Rightarrow> ustr list" where
  "words_acc cur [] = (if cur = [] then [] else [cur])"
| "words_acc cur (c # cs) =
     (if isspace c then (if cur = [] then words_acc [] cs else cur # words_acc [] cs)
      else words_acc (cur @ [c]) cs)"

definition break_at_spaces :: splitter where
  "break_at_spaces line fontName fontSize maxWidth = words_acc [] line"

subsection \<open>When the summary suggestion goes through\<close>




subsection \<open>Concrete inputs\<close>

definition empty_resume :: ResumeData where
  "empty_resume =
     \<lparr>name = [], title = [], email = [], phone = [], location = [], photo = None,
      summary = [], experience = [], education = [], skills = [], achievements = []\<rparr>"

definition payload_of :: "ResumeData \<Rightarrow> ExportPayload" where
  "payload_of d =
     \<lparr>data = d, template = ascii ''clean'', color = ascii ''slate'', font = ascii ''inter''\<rparr>"

text \<open>The record of the spec's end-to-end example.\<close>

definition ann_lee :: ResumeData where
  "ann_lee =
     empty_resume\<lparr>name := ascii ''Ann Lee'', title := ascii ''Engineer'',
                  skills := [\<lparr>skill_name = ascii ''Go'', level = []\<rparr>]\<rparr>"

text \<open>One achievement, a single space.\<close>

definition blank_achievement :: ResumeData where
  "blank_achievement = empty_resume\<lparr>achievements := [ascii '' '']\<rparr>"

text \<open>A name that is a single space.\<close>

definition blank_name :: ResumeData where
  "blank_name = empty_resume\<lparr>name := ascii '' ''\<rparr>"

text \<open>A summary that is a heading word after a space.\<close>

definition spaced_summary :: ResumeData where
  "spaced_summary = empty_resume\<lparr>name := ascii ''Ann'', summary := ascii '' Skills''\<rparr>"

text \<open>An experience entry with every field empty, followed by one with a role.\<close>

definition gap_resume :: ResumeData where
  "gap_resume =
     empty_resume\<lparr>experience :=
       [\<lparr>role = [], company = [], period = [], bullets = []\<rparr>,
        \<lparr>role = ascii ''Dev'', company = [], period = [], bullets = []\<rparr>]\<rparr>"




text \<open>Skills whose only name ends in a space, or is a space.\<close>

definition trailing_space_skill :: ResumeData where
  "trailing_space_skill = empty_resume\<lparr>skills := [\<lparr>skill_name = ascii ''Go '', level = []\<rparr>]\<rparr>"

definition blank_skill :: ResumeData where
  "blank_skill = empty_resume\<lparr>skills := [\<lparr>skill_name = ascii '' '', level = []\<rparr>]\<rparr>"

text \<open>The same skill, with an achievement after it.\<close>

definition skills_then_achievements :: ResumeData where
  "skills_then_achievements =
     empty_resume\<lparr>skills := [\<lparr>skill_name = ascii ''Go '', level = []\<rparr>],
                  achievements := [ascii ''Won'']\<rparr>"

text \<open>Entries with every field empty, alone, three times, and before a degree.\<close>

definition empty_item :: ExperienceItem where
  "empty_item = \<lparr>role = [], company = [], period = [], bullets = []\<rparr>"

definition empty_school :: EducationItem where
  "empty_school = \<lparr>degree = [], school = [], edu_period = [], details = []\<rparr>"

definition one_empty_entry :: ResumeData where
  "one_empty_entry = empty_resume\<lparr>experience := [empty_item]\<rparr>"

definition three_empty_entries :: ResumeData where
  "three_empty_entries = empty_resume\<lparr>experience := [empty_item, empty_item, empty_item]\<rparr>"

definition school_gap :: ResumeData where
  "school_gap =
     empty_resume\<lparr>education :=
       [empty_school,
        \<lparr>degree = ascii ''BSc'', school = [], edu_period = [], details = []\<rparr>]\<rparr>"

section \<open>Strings: joining, splitting, stripping\<close>

lemma join_Cons: "join sep (x # xs) = x @ concat (map (\<lambda>y. sep @ y) xs)"
  by (induction xs arbitrary: x) auto

lemma join_append:
  "join sep (xs @ ys) =
     (if xs = [] then join sep ys else join sep xs @ concat (map (\<lambda>y. sep @ y) ys))"
  by (cases xs) (simp_all add: join_Cons)

lemma join_nonempty_Nil: "sep \<noteq> [] \<Longrightarrow> join sep (nonempty xs) = [] \<longleftrightarrow> nonempty xs = []"
  by (cases "nonempty xs") (auto simp: join_Cons nonempty_def filter_eq_Cons_iff)

lemma split_nl_ne: "split_nl s \<noteq> []"
  by (induction s) (auto split: list.splits)

lemma split_nl_append: "split_nl (a @ NL # b) = split_nl a @ split_nl b"
  by (induction a) (auto split: list.splits simp: split_nl_ne)

lemma split_nl_line: "NL \<notin> set a \<Longrightarrow> split_nl a = [a]"
  by (induction a) auto

lemma split_nl_hd: "NL \<notin> set a \<Longrightarrow> hd (split_nl (a @ NL # b)) = a"
  by (simp add: split_nl_append split_nl_line)

lemma line_in_split:
  assumes "NL \<notin> set h" "a = [] \<or> last a = NL"
  shows "h \<in> set (split_nl (a @ h @ NL # b))"
proof (cases "a = []")
  case True
  then show ?thesis using assms by (simp add: split_nl_append split_nl_line)
next
  case False
  with assms obtain a' where "a = a' @ [NL]"
    by (metis append_butlast_last_id)
  then show ?thesis using assms(1)
    by (simp add: split_nl_append split_nl_line)
qed

text \<open>
  Stripping leaves alone a stretch that starts and ends with a character that is not
  white space: only what is before it and after it can go.
\<close>

lemma strip_sandwich:
  assumes "h \<noteq> []" "\<not> isspace (hd h)" "\<not> isspace (last h)"
  shows "strip (x @ h @ z) = dropWhile isspace x @ h @ rev (dropWhile isspace (rev z))"
proof -
  have l: "dropWhile isspace (x @ h @ z) = dropWhile isspace x @ h @ z"
    using assms(1,2) by (cases h) (auto simp: dropWhile_append)
  have r: "dropWhile isspace (rev z @ rev h @ w) = dropWhile isspace (rev z) @ rev h @ w" for w
    using assms(1,3) by (cases h rule: rev_cases) (auto simp: dropWhile_append)
  show ?thesis
    by (simp add: strip_def l r)
qed


lemma dropWhile_last: "dropWhile P xs \<noteq> [] \<Longrightarrow> last (dropWhile P xs) = last xs"
  by (induction xs) (auto split: if_splits)

lemma rstrip_hd:
  "rev (dropWhile P (rev z)) \<noteq> [] \<Longrightarrow> hd (rev (dropWhile P (rev z))) = hd z"
  by (metis dropWhile_last hd_rev rev_is_Nil_conv rev_rev_ident dropWhile_eq_Nil_conv)

lemma rstrip_tail:
  assumes "z = [] \<or> hd z = NL"
  shows "\<exists>w. rev (dropWhile isspace (rev z)) @ [NL] = NL # w"
proof (cases "rev (dropWhile isspace (rev z)) = []")
  case True
  then have "rev (dropWhile isspace (rev z)) @ [NL] = NL # []" by simp
  then show ?thesis by blast
next
  case False
  then have "hd (rev (dropWhile isspace (rev z))) = hd z" by (rule rstrip_hd)
  moreover from False have "z \<noteq> []" by auto
  ultimately have "hd (rev (dropWhile isspace (rev z))) = NL" using assms by simp
  with False show ?thesis by (cases "rev (dropWhile isspace (rev z))") auto
qed

lemma lstrip_last:
  assumes "x \<noteq> []" "last x = NL"
  shows "dropWhile isspace x = [] \<or> last (dropWhile isspace x) = NL"
  using assms dropWhile_last by metis

lemma lines_after_hd:
  "concat (map (\<lambda>y. [NL] @ y) ps) = [] \<or> hd (concat (map (\<lambda>y. [NL] @ y) ps)) = NL"
  by (cases ps) auto

lemma rstrip_sandwich:
  assumes "h \<noteq> []" "\<not> isspace (last h)"
  shows "rev (dropWhile isspace (rev (a @ h @ z))) = a @ h @ rev (dropWhile isspace (rev z))"
  using assms by (cases h rule: rev_cases) (auto simp: dropWhile_append)

lemma strip_between:
  assumes "\<exists>c\<in>set x. \<not> isspace c" "\<exists>c\<in>set z. \<not> isspace c"
  shows "strip (x @ m @ z) = dropWhile isspace x @ m @ rev (dropWhile isspace (rev z))"
proof -
  from assms(1) have l: "dropWhile isspace (x @ m @ z) = dropWhile isspace x @ m @ z"
    by (auto simp: dropWhile_append)
  from assms(2) have r: "dropWhile isspace (rev z @ w) = dropWhile isspace (rev z) @ w" for w
    by (auto simp: dropWhile_append)
  show ?thesis by (simp add: strip_def l r)
qed

lemma strip_trailing_space:
  assumes "\<exists>c\<in>set x. \<not> isspace c" "\<forall>c\<in>set w. isspace c"
  shows "strip (x @ w) = strip x"
proof -
  from assms(1) have l: "dropWhile isspace (x @ w) = dropWhile isspace x @ w"
    by (auto simp: dropWhile_append)
  from assms(2) have r: "dropWhile isspace (rev w @ y) = dropWhile isspace y" for y
    by (auto simp: dropWhile_append)
  show ?thesis by (simp add: strip_def l r)
qed

lemma lstrip_ne: "\<exists>c\<in>set x. \<not> isspace c \<Longrightarrow> dropWhile isspace x \<noteq> []"
  by (auto simp: dropWhile_eq_Nil_conv)

lemma set_concat_sep:
  "set (concat (map (\<lambda>y. sep @ y) xs)) = (if xs = [] then {} else set sep \<union> set (concat xs))"
  by (induction xs) auto

lemma set_concat_join: "set (concat ps) \<subseteq> set (join sep ps)"
  by (cases ps) (auto simp: join_Cons set_concat_sep split: if_splits)

lemma join_empty_part:
  assumes "ps \<noteq> []" "qs \<noteq> []"
  shows "join [NL] (ps @ [] # qs) = join [NL] ps @ [NL, NL] @ join [NL] qs"
proof -
  have e: "(@) [NL] = (#) NL" by (rule ext) simp
  show ?thesis using assms by (cases qs) (simp_all add: join_append join_Cons e)
qed

lemma join_empty_tail:
  assumes "ps \<noteq> []"
  shows "\<exists>w. join [NL] (ps @ [] # qs) = join [NL] ps @ w \<and> set w \<subseteq> insert NL (set (concat qs))"
proof -
  have "join [NL] (ps @ [] # qs) = join [NL] ps @ concat (map (\<lambda>y. [NL] @ y) ([] # qs))"
    using assms by (simp only: join_append if_False)
  moreover have "set (concat (map (\<lambda>y. [NL] @ y) ([] # qs))) \<subseteq> insert NL (set (concat qs))"
    unfolding set_concat_sep by auto
  ultimately show ?thesis by blast
qed

section \<open>The lineariser, section by section\<close>

lemma experience_loop_eq:
  "experience_loop parts es = parts @ concat (map experience_entry es)"
  by (induction es arbitrary: parts) (simp_all add: experience_entry_def Let_def)

lemma education_loop_eq:
  "education_loop parts eds = parts @ concat (map education_entry eds)"
  by (induction eds arbitrary: parts) (simp_all add: education_entry_def Let_def)

lemma if_snoc: "(if b then ps @ xs else ps) = ps @ (if b then xs else [])"
  by simp

lemma resume_parts_sections:
  "resume_parts d =
     header d # sub_part d @ summary_part d @ experience_part d @ education_part d
       @ skills_part d @ achievements_part d"
  unfolding resume_parts_def header_def sub_part_def summary_part_def experience_part_def
    education_part_def skills_part_def achievements_part_def Let_def
    experience_loop_eq education_loop_eq
  by (simp add: if_snoc cong: if_cong)

lemma header_chars:
  "ascii ''Your Name'' \<noteq> []" "\<not> isspace (hd (ascii ''Your Name''))"
  "\<not> isspace (last (ascii ''Your Name''))" "NL \<notin> set (ascii ''Your Name'')"
  by (simp_all add: ascii_def isspace_def NL_def)

lemma heading_chars:
  "ascii ''Achievements'' \<noteq> []" "\<not> isspace (hd (ascii ''Achievements''))"
  "\<not> isspace (last (ascii ''Achievements''))" "NL \<notin> set (ascii ''Achievements'')"
  by (simp_all add: ascii_def isspace_def NL_def)

text \<open>
  The text of a resume with achievements: what comes before the heading (stripped on
  the left), the heading, and the bullet lines (stripped on the right).
\<close>

lemma achievements_text:
  assumes "achievements d \<noteq> []"
  shows "\<exists>pre. (pre = [] \<or> last pre = NL) \<and>
           format_text_resume d =
             pre @ ascii ''Achievements''
               @ rev (dropWhile isspace (rev (concat (map (\<lambda>y. [NL] @ y)
                   (map bullet (filter (\<lambda>a. strip a \<noteq> []) (achievements d)))))))
               @ [NL]"
proof -
  let ?h = "ascii ''Achievements''"
  let ?bs = "map bullet (filter (\<lambda>a. strip a \<noteq> []) (achievements d))"
  let ?before = "header d # sub_part d @ summary_part d @ experience_part d
      @ education_part d @ skills_part d"
  define x where "x = join [NL] ?before @ [NL, NL]"
  define z where "z = concat (map (\<lambda>y. [NL] @ y) ?bs)"
  have "resume_parts d = ?before @ (NL # ?h) # ?bs"
    using assms by (simp add: resume_parts_sections achievements_part_def)
  then have "join [NL] (resume_parts d) = join [NL] ?before @ concat (map (\<lambda>y. [NL] @ y) ((NL # ?h) # ?bs))"
    by (simp only: join_append) (simp add: comp_def)
  then have j: "join [NL] (resume_parts d) = x @ ?h @ z"
    by (simp add: x_def z_def comp_def)
  have s: "strip (join [NL] (resume_parts d))
             = dropWhile isspace x @ ?h @ rev (dropWhile isspace (rev z))"
    unfolding j by (rule strip_sandwich [OF heading_chars(1-3)])
  have a: "dropWhile isspace x = [] \<or> last (dropWhile isspace x) = NL"
    by (rule lstrip_last) (simp_all add: x_def)
  show ?thesis
    using a s by (intro exI [of _ "dropWhile isspace x"]) (simp add: format_text_resume_def z_def)
qed

lemma count_list_app: "count_list (xs @ ys) a = count_list xs a + count_list ys a"
  by (induction xs) auto

lemma count_concat_map:
  "count_list (concat (map f xs)) a = (\<Sum>x\<leftarrow>xs. count_list (f x) a)"
  by (induction xs) (simp_all add: count_list_app)

lemma sum_list_if_filter: "(\<Sum>x\<leftarrow>xs. if P x then 1 else 0) = length (filter P xs)"
  by (induction xs) auto

lemma count_map_bullet: "count_list (map bullet bs) [] = 0"
  by (induction bs) (simp_all add: bullet_def)

lemma count_experience_entry:
  "count_list (experience_entry e) [] =
     (if role e = [] \<and> company e = [] \<and> period e = [] then 1 else 0)"
proof -
  have "join (ascii '' - '') (nonempty [role e, company e, period e]) = []
     \<longleftrightarrow> role e = [] \<and> company e = [] \<and> period e = []"
    by (subst join_nonempty_Nil) (auto simp: ascii_def nonempty_def)
  then show ?thesis by (simp add: experience_entry_def count_map_bullet)
qed

lemma count_education_entry:
  "count_list (education_entry e) [] =
     (if degree e = [] \<and> school e = [] \<and> edu_period e = [] then 1 else 0)"
proof -
  have "join (ascii '' - '') (nonempty [degree e, school e, edu_period e]) = []
     \<longleftrightarrow> degree e = [] \<and> school e = [] \<and> edu_period e = []"
    by (subst join_nonempty_Nil) (auto simp: ascii_def nonempty_def)
  then show ?thesis by (simp add: education_entry_def bullet_def)
qed

lemma count_fixed_parts:
  "count_list (header d # sub_part d @ summary_part d) [] = 0"
  "count_list (skills_part d @ achievements_part d) [] = 0"
  by (simp_all add: header_def sub_part_def summary_part_def skills_part_def
      achievements_part_def count_list_app count_map_bullet ascii_def Let_def)

lemma append_eq_split:
  assumes "A @ B = ps @ x # qs"
  shows "(\<exists>us. A = ps @ x # us) \<or> (\<exists>us. ps = A @ us \<and> B = us @ x # qs)"
  using assms by (auto simp: append_eq_append_conv2 append_eq_Cons_conv)

lemma heading_first:
  assumes "h # es = us @ [] # vs" "h \<noteq> []"
  shows "h \<in> set us"
  using assms by (cases us) auto

lemma no_empty_fixed:
  "[] \<notin> set (header d # sub_part d @ summary_part d)"
  "[] \<notin> set (skills_part d @ achievements_part d)"
  by (auto simp: header_def sub_part_def summary_part_def skills_part_def
      achievements_part_def bullet_def ascii_def Let_def)

lemma heading_in_prefix:
  assumes "part = us @ [] # vs" "part = (if b then h # es else [])" "h \<noteq> []"
  shows "h \<in> set us"
proof -
  have "h # es = us @ [] # vs" using assms(1,2) by (cases b) simp_all
  then show ?thesis using assms(3) by (rule heading_first)
qed

lemma ink_before_empty:
  assumes "resume_parts d = ps @ [] # qs"
  shows "\<exists>c\<in>set (concat ps). \<not> isspace c"
proof -
  let ?H = "header d # sub_part d @ summary_part d"
  let ?S = "skills_part d @ achievements_part d"
  let ?X = "NL # ascii ''Experience''"
  let ?U = "NL # ascii ''Education''"
  have eq: "?H @ (experience_part d @ (education_part d @ ?S)) = ps @ [] # qs"
    using assms by (simp add: resume_parts_sections)
  have ink: "?X \<in> set ps \<or> ?U \<in> set ps"
    using append_eq_split [OF eq]
  proof (elim disjE exE conjE)
    fix us assume "?H = ps @ [] # us"
    then have "[] \<in> set ?H" by (simp only: set_append) simp
    then show ?thesis using no_empty_fixed(1) by blast
  next
    fix us assume ps: "ps = ?H @ us"
      and rest: "experience_part d @ (education_part d @ ?S) = us @ [] # qs"
    show ?thesis
      using append_eq_split [OF rest]
    proof (elim disjE exE conjE)
      fix vs assume "experience_part d = us @ [] # vs"
      then have "?X \<in> set us"
        by (rule heading_in_prefix) (simp_all add: experience_part_def)
      then show ?thesis using ps by simp
    next
      fix vs assume us: "us = experience_part d @ vs"
        and rest2: "education_part d @ ?S = vs @ [] # qs"
      show ?thesis
        using append_eq_split [OF rest2]
      proof (elim disjE exE conjE)
        fix ws assume "education_part d = vs @ [] # ws"
        then have "?U \<in> set vs"
          by (rule heading_in_prefix) (simp_all add: education_part_def)
        then show ?thesis using ps us by simp
      next
        fix ws assume "?S = ws @ [] # qs"
        then have "[] \<in> set ?S" by (simp only: set_append) simp
        then show ?thesis using no_empty_fixed(2) by blast
      qed
    qed
  qed
  have e: "\<not> isspace 69" by (simp add: isspace_def)
  from ink obtain h where "h \<in> set ps" "69 \<in> set h"
    by (auto simp: ascii_def)
  then have "69 \<in> set (concat ps)" by auto
  then show ?thesis using e by blast
qed

text \<open>An empty part shows as an empty line when something other than white space follows.\<close>

lemma empty_part_line:
  assumes "resume_parts d = ps @ [] # qs" "\<exists>c\<in>set (concat qs). \<not> isspace c"
  shows "format_text_resume d =
           dropWhile isspace (join [NL] ps) @ [NL, NL]
             @ rev (dropWhile isspace (rev (join [NL] qs))) @ [NL]"
    and "dropWhile isspace (join [NL] ps) \<noteq> []"
proof -
  have x: "\<exists>c\<in>set (join [NL] ps). \<not> isspace c"
    using ink_before_empty [OF assms(1)] set_concat_join [of ps "[NL]"] by blast
  have z: "\<exists>c\<in>set (join [NL] qs). \<not> isspace c"
    using assms(2) set_concat_join [of qs "[NL]"] by blast
  have ne: "ps \<noteq> []" "qs \<noteq> []" using x z by auto
  show "format_text_resume d =
           dropWhile isspace (join [NL] ps) @ [NL, NL]
             @ rev (dropWhile isspace (rev (join [NL] qs))) @ [NL]"
    unfolding format_text_resume_def assms(1) join_empty_part [OF ne]
    by (simp only: strip_between [OF x z] append_assoc)
  show "dropWhile isspace (join [NL] ps) \<noteq> []"
    using x by (rule lstrip_ne)
qed

lemma empty_part_stripped:
  assumes "resume_parts d = ps @ [] # qs" "\<forall>c\<in>set (concat qs). isspace c"
  shows "format_text_resume d = strip (join [NL] ps) @ [NL]"
proof -
  have x: "\<exists>c\<in>set (join [NL] ps). \<not> isspace c"
    using ink_before_empty [OF assms(1)] set_concat_join [of ps "[NL]"] by blast
  then have "ps \<noteq> []" by auto
  then obtain w where w: "join [NL] (ps @ [] # qs) = join [NL] ps @ w"
    "set w \<subseteq> insert NL (set (concat qs))"
    using join_empty_tail by blast
  have "isspace NL" by (simp add: isspace_def NL_def)
  then have "\<forall>c\<in>set w. isspace c"
    using w(2) assms(2) by blast
  then show ?thesis
    unfolding format_text_resume_def assms(1) w(1)
    by (simp only: strip_trailing_space [OF x])
qed


lemma empty_experience_part:
  assumes "experience d = xs @ e # ys" "role e = []" "company e = []" "period e = []"
  shows "\<exists>ps0 qs. resume_parts d =
           experience_loop (ps0 @ [NL # ascii ''Experience'']) xs @ [] # qs"
proof -
  have "experience_entry e = [] # map bullet (filter (\<lambda>b. strip b \<noteq> []) (bullets e))"
    using assms(2-4) by (simp add: experience_entry_def nonempty_def)
  then have "resume_parts d =
      experience_loop ((header d # sub_part d @ summary_part d) @ [NL # ascii ''Experience'']) xs
        @ [] # (map bullet (filter (\<lambda>b. strip b \<noteq> []) (bullets e))
                @ concat (map experience_entry ys) @ education_part d @ skills_part d
                @ achievements_part d)"
    using assms(1) by (simp add: resume_parts_sections experience_part_def experience_loop_eq)
  then show ?thesis by blast
qed

lemma empty_education_part:
  assumes "education d = xs @ e # ys" "degree e = []" "school e = []" "edu_period e = []"
  shows "\<exists>ps0 qs. resume_parts d =
           education_loop (ps0 @ [NL # ascii ''Education'']) xs @ [] # qs"
proof -
  have "education_entry e = [] # (if details e \<noteq> [] then [bullet (details e)] else [])"
    using assms(2-4) by (simp add: education_entry_def nonempty_def)
  then have "resume_parts d =
      education_loop ((header d # sub_part d @ summary_part d @ experience_part d)
          @ [NL # ascii ''Education'']) xs
        @ [] # ((if details e \<noteq> [] then [bullet (details e)] else [])
                @ concat (map education_entry ys) @ skills_part d @ achievements_part d)"
    using assms(1) by (simp add: resume_parts_sections education_part_def education_loop_eq)
  then show ?thesis by blast
qed

lemma skills_chars:
  "ascii ''Skills'' \<noteq> []" "\<not> isspace (hd (ascii ''Skills''))"
  "\<not> isspace (last (ascii ''Skills''))"
  by (simp_all add: ascii_def isspace_def)

lemma join_Nil_iff: "\<forall>x\<in>set xs. x \<noteq> [] \<Longrightarrow> join sep xs = [] \<longleftrightarrow> xs = []"
  by (cases xs) (auto simp: join_Cons)

lemma skills_line_Nil:
  "skills_line ss = [] \<longleftrightarrow> filter (\<lambda>s. skill_name s \<noteq> []) ss = []"
  unfolding skills_line_def
  by (subst join_Nil_iff) (auto simp: skill_text_def)

text \<open>
  The text of a resume with a skills line: what comes before the heading (stripped on
  the left), the heading, then the skills line and what the achievements add (stripped
  on the right).
\<close>

lemma skills_text:
  assumes "skills_line (skills d) \<noteq> []"
  shows "\<exists>pre. (pre = [] \<or> last pre = NL) \<and>
           format_text_resume d =
             pre @ ascii ''Skills''
               @ rev (dropWhile isspace (rev (NL # skills_line (skills d)
                   @ concat (map (\<lambda>y. NL # y) (achievements_part d)))))
               @ [NL]"
proof -
  let ?h = "ascii ''Skills''"
  let ?L = "skills_line (skills d)"
  let ?before = "header d # sub_part d @ summary_part d @ experience_part d
      @ education_part d"
  define x where "x = join [NL] ?before @ [NL, NL]"
  define z where "z = NL # ?L @ concat (map (\<lambda>y. NL # y) (achievements_part d))"
  have e: "(@) [NL] = (#) NL" by (rule ext) simp
  have "skills d \<noteq> []" using assms by (auto simp: skills_line_def)
  then have "resume_parts d = ?before @ (NL # ?h @ NL # ?L) # achievements_part d"
    using assms by (simp add: resume_parts_sections skills_part_def)
  then have "join [NL] (resume_parts d) =
      join [NL] ?before @ concat (map (\<lambda>y. [NL] @ y) ((NL # ?h @ NL # ?L) # achievements_part d))"
    by (simp only: join_append) (simp add: e)
  then have j: "join [NL] (resume_parts d) = x @ ?h @ z"
    by (simp add: x_def z_def e)
  have s: "strip (join [NL] (resume_parts d))
             = dropWhile isspace x @ ?h @ rev (dropWhile isspace (rev z))"
    unfolding j by (rule strip_sandwich [OF skills_chars])
  have a: "dropWhile isspace x = [] \<or> last (dropWhile isspace x) = NL"
    by (rule lstrip_last) (simp_all add: x_def)
  show ?thesis
    using a s by (intro exI [of _ "dropWhile isspace x"]) (simp add: format_text_resume_def z_def)
qed

lemmas eval_defs =
  ascii_def NL_def isspace_def strip_def bullet_def nonempty_def skill_text_def
  skills_line_def resume_parts_def format_text_resume_def Let_def empty_resume_def

section \<open>Claims about the lineariser\<close>

text \<open>
  C1, as amended. The text is made of what the header, the subheader and the five
  sections contribute, and a section contributes nothing exactly when its field is
  empty: the summary string, the experience, education and achievements sequences,
  and for the skills the sequence of skills that have a name. So each section is
  emitted only if its field has content. For the achievements the test is on the
  sequence, not on its items: the claim says that a resume whose achievements are all
  blank gets no "Achievements" heading, but whenever the sequence is not empty the
  text has the line "Achievements", and when every achievement is blank that line is
  the last one of the text, with no bullet line under it.
\<close>

theorem section_emission:
  "format_text_resume d =
     strip (join [NL]
       (header d # sub_part d @ summary_part d @ experience_part d @ education_part d
          @ skills_part d @ achievements_part d)) @ [NL]
   \<and> (summary_part d = []) = (summary d = [])
   \<and> (experience_part d = []) = (experience d = [])
   \<and> (education_part d = []) = (education d = [])
   \<and> (skills_part d = []) = (filter (\<lambda>s. skill_name s \<noteq> []) (skills d) = [])
   \<and> (achievements_part d = []) = (achievements d = [])
   \<and> (achievements d \<noteq> [] \<longrightarrow>
        ascii ''Achievements'' \<in> set (split_nl (format_text_resume d)))
   \<and> (achievements d \<noteq> [] \<and> filter (\<lambda>a. strip a \<noteq> []) (achievements d) = [] \<longrightarrow>
        (\<exists>pre. (pre = [] \<or> last pre = NL)
            \<and> format_text_resume d = pre @ ascii ''Achievements'' @ [NL]))"
proof -
  have whole: "format_text_resume d =
     strip (join [NL]
       (header d # sub_part d @ summary_part d @ experience_part d @ education_part d
          @ skills_part d @ achievements_part d)) @ [NL]"
    by (simp only: format_text_resume_def resume_parts_sections)
  have parts: "(summary_part d = []) = (summary d = [])"
    "(experience_part d = []) = (experience d = [])"
    "(education_part d = []) = (education d = [])"
    "(achievements_part d = []) = (achievements d = [])"
    by (simp_all add: summary_part_def experience_part_def education_part_def
        achievements_part_def)
  have sk: "(skills_part d = []) = (filter (\<lambda>s. skill_name s \<noteq> []) (skills d) = [])"
    by (auto simp: skills_part_def skills_line_Nil)
  have heading: "ascii ''Achievements'' \<in> set (split_nl (format_text_resume d))"
    and blank: "filter (\<lambda>a. strip a \<noteq> []) (achievements d) = [] \<Longrightarrow>
            \<exists>pre. (pre = [] \<or> last pre = NL)
                \<and> format_text_resume d = pre @ ascii ''Achievements'' @ [NL]"
    if ne: "achievements d \<noteq> []"
  proof -
    let ?z = "concat (map (\<lambda>y. [NL] @ y)
                (map bullet (filter (\<lambda>a. strip a \<noteq> []) (achievements d))))"
    obtain pre where pre: "pre = [] \<or> last pre = NL"
      and out: "format_text_resume d
                  = pre @ ascii ''Achievements'' @ rev (dropWhile isspace (rev ?z)) @ [NL]"
      using achievements_text [OF ne] by blast
    obtain w where w: "rev (dropWhile isspace (rev ?z)) @ [NL] = NL # w"
      using rstrip_tail [of ?z] lines_after_hd by blast
    have "format_text_resume d = pre @ ascii ''Achievements'' @ NL # w"
      using out w by simp
    then show "ascii ''Achievements'' \<in> set (split_nl (format_text_resume d))"
      using line_in_split [OF heading_chars(4) pre] by simp
    show "\<exists>pre. (pre = [] \<or> last pre = NL)
                \<and> format_text_resume d = pre @ ascii ''Achievements'' @ [NL]"
      if "filter (\<lambda>a. strip a \<noteq> []) (achievements d) = []"
      using out pre that by auto
  qed
  show ?thesis
    using whole parts sk heading blank by blast
qed

theorem section_emission_witness:
  "achievements blank_achievement \<noteq> []
   \<and> filter (\<lambda>a. strip a \<noteq> []) (achievements blank_achievement) = []
   \<and> ascii ''Achievements'' \<in> set (split_nl (format_text_resume blank_achievement))
   \<and> format_text_resume blank_achievement
       = ascii ''Your Name\<newline>\<newline>'' @ ascii ''Achievements'' @ [NL]"
  using section_emission [of blank_achievement]
  by (simp add: blank_achievement_def eval_defs header_def sub_part_def summary_part_def
      experience_part_def education_part_def skills_part_def achievements_part_def)

theorem blank_achievement_counterexample:
  "achievements blank_achievement = [ascii '' '']
   \<and> strip (ascii '' '') = []
   \<and> format_text_resume blank_achievement
       = ascii ''Your Name'' @ [NL, NL] @ ascii ''Achievements'' @ [NL]
   \<and> ascii ''Achievements'' \<in> set (split_nl (format_text_resume blank_achievement))"
  by (simp add: blank_achievement_def eval_defs)

text \<open>
  C2, as amended. The fallback is taken when the name is empty; a name of white space
  only is used as it is (and then lost when the text is stripped). For every resume
  with an empty name the first line of the text is "Your Name".
\<close>

theorem header_fallback_empty_name:
  assumes "name d = []"
  shows "hd (split_nl (format_text_resume d)) = ascii ''Your Name''"
proof -
  let ?h = "ascii ''Your Name''"
  define ps where "ps = sub_part d @ summary_part d @ experience_part d @ education_part d
      @ skills_part d @ achievements_part d"
  define z where "z = concat (map (\<lambda>y. [NL] @ y) ps)"
  have "resume_parts d = ?h # ps"
    using assms by (simp add: resume_parts_sections header_def ps_def)
  then have j: "join [NL] (resume_parts d) = [] @ ?h @ z"
    by (simp add: join_Cons z_def)
  have "strip (join [NL] (resume_parts d)) = ?h @ rev (dropWhile isspace (rev z))"
    unfolding j by (subst strip_sandwich [OF header_chars(1-3)]) simp
  moreover obtain w where "rev (dropWhile isspace (rev z)) @ [NL] = NL # w"
    using rstrip_tail [of z] lines_after_hd [of ps] by (auto simp: z_def)
  ultimately have "format_text_resume d = ?h @ NL # w"
    by (simp add: format_text_resume_def)
  then show ?thesis using header_chars(4) by (simp add: split_nl_hd)
qed

theorem header_fallback_empty_name_witness:
  "name empty_resume = []
   \<and> hd (split_nl (format_text_resume empty_resume)) = ascii ''Your Name''"
  using header_fallback_empty_name [of empty_resume] by (simp add: empty_resume_def)

theorem blank_name_counterexample:
  "name blank_name = ascii '' ''
   \<and> strip (name blank_name) = []
   \<and> format_text_resume blank_name = [NL]
   \<and> hd (split_nl (format_text_resume blank_name)) \<noteq> ascii ''Your Name''"
  by (simp add: blank_name_def eval_defs)

text \<open>
  C3. For the all-empty record (every string field empty, every sequence empty, with or
  without a photo) the lineariser returns exactly the fallback header followed by one
  newline.
\<close>

theorem format_text_resume_all_empty:
  "format_text_resume
     \<lparr>name = [], title = [], email = [], phone = [], location = [], photo = p,
      summary = [], experience = [], education = [], skills = [], achievements = []\<rparr>
   = ascii ''Your Name\<newline>''"
  by (simp add: eval_defs)

text \<open>
  C8, as amended. The skills line: a skill with an empty name is dropped, whatever its
  level; a named skill without a level is rendered as its name; a named skill with a
  level as "name (level)"; the rendered skills are joined with ", ". When the line is
  not empty the text has the "Skills" heading and the line under it: as it is when
  achievements follow, or when the line does not end in white space; otherwise the
  line is the end of the text and is there with its white space at the end stripped,
  so that the name "Go " is printed as "Go" and a line of white space is not printed.
\<close>

theorem skills_line_in_text:
  "(skill_name s = [] \<longrightarrow> skills_line (xs @ s # ys) = skills_line (xs @ ys))
   \<and> (skill_name s \<noteq> [] \<and> level s = [] \<longrightarrow> skills_line [s] = skill_name s)
   \<and> (skill_name s \<noteq> [] \<and> level s \<noteq> [] \<longrightarrow>
        skills_line [s] = skill_name s @ ascii '' ('' @ level s @ ascii '')'')
   \<and> skills_line ss =
        join (ascii '', '') (map (\<lambda>s. skills_line [s]) (filter (\<lambda>s. skill_name s \<noteq> []) ss))
   \<and> (skills_line (skills d) \<noteq> [] \<and> achievements d \<noteq> [] \<longrightarrow>
        (\<exists>pre post. (pre = [] \<or> last pre = NL)
           \<and> format_text_resume d
               = pre @ ascii ''Skills'' @ NL # skills_line (skills d) @ NL # post))
   \<and> (skills_line (skills d) \<noteq> [] \<and> achievements d = [] \<longrightarrow>
        (\<exists>pre. (pre = [] \<or> last pre = NL)
           \<and> format_text_resume d
               = pre @ ascii ''Skills''
                   @ rev (dropWhile isspace (rev (NL # skills_line (skills d)))) @ [NL]))
   \<and> (skills_line (skills d) \<noteq> [] \<and> achievements d = []
        \<and> \<not> isspace (last (skills_line (skills d))) \<longrightarrow>
        (\<exists>pre. (pre = [] \<or> last pre = NL)
           \<and> format_text_resume d
               = pre @ ascii ''Skills'' @ NL # skills_line (skills d) @ [NL]))"
proof -
  let ?L = "skills_line (skills d)"
  have m: "map (\<lambda>s. skills_line [s]) (filter (\<lambda>s. skill_name s \<noteq> []) ss)
      = map skill_text (filter (\<lambda>s. skill_name s \<noteq> []) ss)"
    by (induction ss) (simp_all add: skills_line_def)
  have joined: "skills_line ss =
        join (ascii '', '') (map (\<lambda>s. skills_line [s]) (filter (\<lambda>s. skill_name s \<noteq> []) ss))"
    by (simp only: m skills_line_def [of ss])
  have dropped: "skill_name s = [] \<longrightarrow> skills_line (xs @ s # ys) = skills_line (xs @ ys)"
    by (simp add: skills_line_def)
  have plain: "skill_name s \<noteq> [] \<and> level s = [] \<longrightarrow> skills_line [s] = skill_name s"
    by (simp add: skills_line_def skill_text_def)
  have levelled: "skill_name s \<noteq> [] \<and> level s \<noteq> [] \<longrightarrow>
        skills_line [s] = skill_name s @ ascii '' ('' @ level s @ ascii '')''"
    by (simp add: skills_line_def skill_text_def)
  have followed: "\<exists>pre post. (pre = [] \<or> last pre = NL)
           \<and> format_text_resume d = pre @ ascii ''Skills'' @ NL # ?L @ NL # post"
    if L: "?L \<noteq> []" and A: "achievements d \<noteq> []"
  proof -
    let ?bs = "concat (map (\<lambda>y. NL # y)
        (map bullet (filter (\<lambda>a. strip a \<noteq> []) (achievements d))))"
    obtain pre where pre: "pre = [] \<or> last pre = NL"
      and out: "format_text_resume d =
             pre @ ascii ''Skills''
               @ rev (dropWhile isspace (rev (NL # ?L
                   @ concat (map (\<lambda>y. NL # y) (achievements_part d))))) @ [NL]"
      using skills_text [OF L] by blast
    have "NL # ?L @ concat (map (\<lambda>y. NL # y) (achievements_part d))
        = (NL # ?L @ [NL, NL]) @ ascii ''Achievements'' @ ?bs"
      using A by (simp add: achievements_part_def)
    then have "rev (dropWhile isspace (rev (NL # ?L
                   @ concat (map (\<lambda>y. NL # y) (achievements_part d)))))
        = (NL # ?L @ [NL, NL]) @ ascii ''Achievements'' @ rev (dropWhile isspace (rev ?bs))"
      by (simp only: rstrip_sandwich [OF heading_chars(1,3)])
    with out have "format_text_resume d = pre @ ascii ''Skills'' @ NL # ?L
        @ NL # (NL # ascii ''Achievements'' @ rev (dropWhile isspace (rev ?bs)) @ [NL])"
      by simp
    with pre show ?thesis by blast
  qed
  have last_line: "\<exists>pre. (pre = [] \<or> last pre = NL)
           \<and> format_text_resume d
               = pre @ ascii ''Skills'' @ rev (dropWhile isspace (rev (NL # ?L))) @ [NL]"
    if "?L \<noteq> []" "achievements d = []"
    using skills_text [OF that(1)] that(2) by (simp add: achievements_part_def)
  have kept: "\<exists>pre. (pre = [] \<or> last pre = NL)
           \<and> format_text_resume d = pre @ ascii ''Skills'' @ NL # ?L @ [NL]"
    if "?L \<noteq> []" "achievements d = []" "\<not> isspace (last ?L)"
  proof -
    have "rev (dropWhile isspace (rev ([NL] @ ?L @ []))) = [NL] @ ?L @ rev (dropWhile isspace (rev []))"
      by (rule rstrip_sandwich [OF that(1,3)])
    then have "rev (dropWhile isspace (rev (NL # ?L))) = NL # ?L" by simp
    with last_line [OF that(1,2)] show ?thesis by simp
  qed
  show ?thesis
    using joined dropped plain levelled followed last_line kept by blast
qed

theorem skills_line_in_text_witness:
  "skills_line [\<lparr>skill_name = ascii ''Go'', level = []\<rparr>,
                \<lparr>skill_name = [], level = ascii ''Expert''\<rparr>,
                \<lparr>skill_name = ascii ''SQL'', level = ascii ''Advanced''\<rparr>]
     = skills_line [\<lparr>skill_name = ascii ''Go'', level = []\<rparr>,
                    \<lparr>skill_name = ascii ''SQL'', level = ascii ''Advanced''\<rparr>]
   \<and> skills_line [\<lparr>skill_name = ascii ''Go'', level = []\<rparr>] = ascii ''Go''
   \<and> skills_line [\<lparr>skill_name = ascii ''SQL'', level = ascii ''Advanced''\<rparr>]
       = ascii ''SQL (Advanced)''
   \<and> skills_line (skills skills_then_achievements) = ascii ''Go ''
   \<and> achievements skills_then_achievements = [ascii ''Won'']
   \<and> format_text_resume skills_then_achievements
       = ascii ''Your Name\<newline>\<newline>Skills\<newline>Go \<newline>\<newline>Achievements\<newline>'' @ bullet (ascii ''Won'') @ [NL]
   \<and> skills_line (skills trailing_space_skill) = ascii ''Go ''
   \<and> format_text_resume trailing_space_skill = ascii ''Your Name\<newline>\<newline>Skills\<newline>Go\<newline>''
   \<and> skills_line (skills ann_lee) = ascii ''Go''
   \<and> format_text_resume ann_lee = ascii ''Ann Lee\<newline>Engineer\<newline>\<newline>Skills\<newline>Go\<newline>''"
  using
    skills_line_in_text [where s = "\<lparr>skill_name = [], level = ascii ''Expert''\<rparr>"
      and xs = "[\<lparr>skill_name = ascii ''Go'', level = []\<rparr>]"
      and ys = "[\<lparr>skill_name = ascii ''SQL'', level = ascii ''Advanced''\<rparr>]"
      and d = skills_then_achievements]
    skills_line_in_text [where s = "\<lparr>skill_name = ascii ''Go'', level = []\<rparr>"
      and d = trailing_space_skill]
    skills_line_in_text [where s = "\<lparr>skill_name = ascii ''SQL'', level = ascii ''Advanced''\<rparr>"
      and d = ann_lee]
  by (simp add: skills_then_achievements_def trailing_space_skill_def ann_lee_def eval_defs)

theorem trailing_space_skill_counterexample:
  "skills trailing_space_skill = [\<lparr>skill_name = ascii ''Go '', level = []\<rparr>]
   \<and> format_text_resume trailing_space_skill = ascii ''Your Name\<newline>\<newline>Skills\<newline>Go\<newline>''
   \<and> ascii ''Go '' \<notin> set (split_nl (format_text_resume trailing_space_skill))
   \<and> skills blank_skill = [\<lparr>skill_name = ascii '' '', level = []\<rparr>]
   \<and> format_text_resume blank_skill = ascii ''Your Name\<newline>\<newline>Skills\<newline>''"
  by (simp add: trailing_space_skill_def blank_skill_def eval_defs)

text \<open>
  C9. The spec's end-to-end example: the record of Ann Lee, exported as plain text, is
  the UTF-8 bytes of "Ann Lee", "Engineer", an empty line, "Skills", "Go", each line
  ended by a newline, whatever the template, colour and font of the payload.
\<close>

theorem export_txt_ann_lee:
  "format_text_resume ann_lee
     = ascii ''Ann Lee\<newline>Engineer\<newline>\<newline>Skills\<newline>Go\<newline>''
   \<and> export_txt \<lparr>data = ann_lee, template = t, color = c, font = f\<rparr>
     = Inr \<lparr>body = [65, 110, 110, 32, 76, 101, 101, 10,
                    69, 110, 103, 105, 110, 101, 101, 114, 10,
                    10,
                    83, 107, 105, 108, 108, 115, 10,
                    71, 111, 10],
            media_type = ascii ''text/plain'',
            content_disposition = ascii ''attachment; filename=resume.txt''\<rparr>"
  by (simp add: eval_defs ann_lee_def export_txt_def utf8_char_def)

text \<open>
  C10, as amended. An experience entry whose role, company and period are all empty
  still gets its line, the empty string, appended after the heading and the lines of
  the entries before it; so does an education entry whose degree, school and period
  are all empty. Nothing else the lineariser appends is empty: the empty lines among
  \<open>parts\<close> are exactly one per such entry. In the text, an empty line of
  \<open>parts\<close> that has something other than white space after it is an empty line,
  between the text of what is before it and the text of what is after it. One that
  has only white space after it is not in the text, which then ends with what is
  before it: the final strip removes it.
\<close>

theorem empty_entry_lines:
  "(experience d = xs @ e # ys \<and> role e = [] \<and> company e = [] \<and> period e = [] \<longrightarrow>
      (\<exists>ps0 qs. resume_parts d =
         experience_loop (ps0 @ [NL # ascii ''Experience'']) xs @ [] # qs))
   \<and> (education d = us @ ed # vs \<and> degree ed = [] \<and> school ed = [] \<and> edu_period ed = [] \<longrightarrow>
      (\<exists>ps0 qs. resume_parts d =
         education_loop (ps0 @ [NL # ascii ''Education'']) us @ [] # qs))
   \<and> count_list (resume_parts d) [] =
       length (filter (\<lambda>e. role e = [] \<and> company e = [] \<and> period e = []) (experience d))
       + length (filter (\<lambda>ed. degree ed = [] \<and> school ed = [] \<and> edu_period ed = [])
           (education d))
   \<and> (resume_parts d = ps @ [] # qs \<and> (\<exists>c\<in>set (concat qs). \<not> isspace c) \<longrightarrow>
        dropWhile isspace (join [NL] ps) \<noteq> []
        \<and> format_text_resume d =
            dropWhile isspace (join [NL] ps) @ [NL, NL]
              @ rev (dropWhile isspace (rev (join [NL] qs))) @ [NL])
   \<and> (resume_parts d = ps @ [] # qs \<and> (\<forall>c\<in>set (concat qs). isspace c) \<longrightarrow>
        format_text_resume d = strip (join [NL] ps) @ [NL])"
proof -
  have "count_list (experience_part d) [] =
     length (filter (\<lambda>e. role e = [] \<and> company e = [] \<and> period e = []) (experience d))"
    by (simp add: experience_part_def count_concat_map count_experience_entry
        sum_list_if_filter)
  moreover have "count_list (education_part d) [] =
     length (filter (\<lambda>ed. degree ed = [] \<and> school ed = [] \<and> edu_period ed = [])
       (education d))"
    by (simp add: education_part_def count_concat_map count_education_entry
        sum_list_if_filter)
  moreover have "count_list (resume_parts d) [] =
      count_list (header d # sub_part d @ summary_part d) []
      + count_list (experience_part d) [] + count_list (education_part d) []
      + count_list (skills_part d @ achievements_part d) []"
    unfolding resume_parts_sections
    by (simp only: count_list_app append_Cons [symmetric] add.assoc)
  ultimately have c: "count_list (resume_parts d) [] =
       length (filter (\<lambda>e. role e = [] \<and> company e = [] \<and> period e = []) (experience d))
       + length (filter (\<lambda>ed. degree ed = [] \<and> school ed = [] \<and> edu_period ed = [])
           (education d))"
    by (simp only: count_fixed_parts)
  show ?thesis
    using c empty_experience_part [of d xs e ys] empty_education_part [of d us ed vs]
      empty_part_line [of d ps qs] empty_part_stripped [of d ps qs]
    by blast
qed

theorem empty_entry_lines_witness:
  "experience gap_resume
     = [] @ empty_item # [\<lparr>role = ascii ''Dev'', company = [], period = [], bullets = []\<rparr>]
   \<and> education school_gap
     = [] @ empty_school
         # [\<lparr>degree = ascii ''BSc'', school = [], edu_period = [], details = []\<rparr>]
   \<and> resume_parts gap_resume
     = [ascii ''Your Name'', NL # ascii ''Experience''] @ [] # [ascii ''Dev'']
   \<and> format_text_resume gap_resume
     = ascii ''Your Name\<newline>\<newline>Experience\<newline>\<newline>Dev\<newline>''
   \<and> resume_parts one_empty_entry
     = [ascii ''Your Name'', NL # ascii ''Experience''] @ [] # []
   \<and> format_text_resume one_empty_entry = ascii ''Your Name\<newline>\<newline>Experience\<newline>''"
  using
    empty_entry_lines [where d = gap_resume and xs = "[]" and e = empty_item
      and ys = "[\<lparr>role = ascii ''Dev'', company = [], period = [], bullets = []\<rparr>]"
      and ps = "[ascii ''Your Name'', NL # ascii ''Experience'']" and qs = "[ascii ''Dev'']"]
    empty_entry_lines [where d = school_gap and us = "[]" and ed = empty_school
      and vs = "[\<lparr>degree = ascii ''BSc'', school = [], edu_period = [], details = []\<rparr>]"]
    empty_entry_lines [where d = one_empty_entry
      and ps = "[ascii ''Your Name'', NL # ascii ''Experience'']" and qs = "[]"]
  by (simp add: gap_resume_def school_gap_def one_empty_entry_def empty_item_def
      empty_school_def eval_defs)

theorem trailing_empty_entry_counterexample:
  "experience one_empty_entry = [\<lparr>role = [], company = [], period = [], bullets = []\<rparr>]
   \<and> format_text_resume one_empty_entry = ascii ''Your Name\<newline>\<newline>Experience\<newline>''
   \<and> split_nl (format_text_resume one_empty_entry)
       = [ascii ''Your Name'', [], ascii ''Experience'', []]
   \<and> format_text_resume three_empty_entries = format_text_resume one_empty_entry"
  by (simp add: one_empty_entry_def three_empty_entries_def empty_item_def eval_defs)

section \<open>The PDF exporter, line by line\<close>

lemma draw_wrapped_from:
  "draw_wrapped x (c, y - 14 * int n) ws =
     (c @ map (\<lambda>(i, w). DrawString x (y - 14 * int i) w) (enumerate n ws),
      y - 14 * int (n + length ws))"
proof (induction ws arbitrary: c n)
  case Nil
  then show ?case by simp
next
  case (Cons w ws)
  have "draw_wrapped x (c, y - 14 * int n) (w # ws) =
        draw_wrapped x (c @ [DrawString x (y - 14 * int n) w], y - 14 * int (Suc n)) ws"
    by (simp add: algebra_simps)
  also have "\<dots> =
      ((c @ [DrawString x (y - 14 * int n) w])
         @ map (\<lambda>(i, w). DrawString x (y - 14 * int i) w) (enumerate (Suc n) ws),
       y - 14 * int (Suc n + length ws))"
    by (rule Cons.IH)
  finally show ?case by simp
qed

lemma draw_wrapped_eq:
  "draw_wrapped x (c, y) ws = (c @ sub_draws x y ws, y - 14 * int (length ws))"
  using draw_wrapped_from [of x c y 0 ws] by (simp add: sub_draws_def)





text \<open>One pass of the loop, with the page size and the margins computed.\<close>

lemma pdf_line_eq:
  "pdf_line ss (c, y) line =
     (let (c0, y0) = (if y < 60 then (c @ [ShowPage, SetFont (ascii ''Helvetica'') 11], 752)
                      else (c, y));
          wrapped = ss line (ascii ''Helvetica'') 11 532
      in if strip line \<in> set headings
         then (c0 @ [SetFont (ascii ''Helvetica-Bold'') 12, DrawString 40 y0 line,
                     SetFont (ascii ''Helvetica'') 11], y0 - 18)
         else (c0 @ sub_draws 40 y0 wrapped, y0 - 14 * int (length wrapped)))"
  by (simp add: pdf_line_def letter_def Let_def draw_wrapped_eq)

subsection \<open>The run on the fifty long words\<close>










section \<open>Claims about the PDF exporter\<close>




text \<open>
  C5, as amended. The claim says a line is a heading exactly when it equals one of the
  five strings. The source compares the line with its white space stripped: a line is
  rendered as a heading (bold 12-point font, the line drawn as it is, body font back,
  cursor down by 18) exactly when its stripped form is one of the five strings; every
  other line is wrapped to the printable width of 532 at the body font, and sub-line
  \<open>i\<close> is drawn 14 units below sub-line \<open>i - 1\<close>, the cursor ending 14 units under
  the last one. Both happen after the page break of C4, if there is one.
\<close>

theorem pdf_line_rendering:
  "pdf_line ss (c, y) line =
     (let (c0, y0) = (if y < 60 then (c @ [ShowPage, SetFont (ascii ''Helvetica'') 11], 752)
                      else (c, y));
          wrapped = ss line (ascii ''Helvetica'') 11 532
      in if strip line = ascii ''Summary'' \<or> strip line = ascii ''Experience''
            \<or> strip line = ascii ''Education'' \<or> strip line = ascii ''Skills''
            \<or> strip line = ascii ''Achievements''
         then (c0 @ [SetFont (ascii ''Helvetica-Bold'') 12, DrawString 40 y0 line,
                     SetFont (ascii ''Helvetica'') 11], y0 - 18)
         else (c0 @ map (\<lambda>(i, w). DrawString 40 (y0 - 14 * int i) w) (enumerate 0 wrapped),
               y0 - 14 * int (length wrapped)))"
  by (simp add: pdf_line_eq headings_def sub_draws_def Let_def)

theorem spaced_heading_counterexample:
  "split_nl (format_text_resume spaced_summary)
     = [ascii ''Ann'', [], ascii ''Summary'', ascii '' Skills'', []]
   \<and> ascii '' Skills'' \<notin> set headings
   \<and> pdf_canvas break_at_spaces (payload_of spaced_summary)
     = [SetFont (ascii ''Helvetica-Bold'') 14,
        DrawString 40 752 (ascii ''Ann''),
        SetFont (ascii ''Helvetica-Bold'') 12, DrawString 40 738 (ascii ''Summary''),
        SetFont (ascii ''Helvetica'') 11,
        SetFont (ascii ''Helvetica-Bold'') 12, DrawString 40 720 (ascii '' Skills''),
        SetFont (ascii ''Helvetica'') 11,
        ShowPage, Save]"
proof -
  have l: "split_nl (format_text_resume spaced_summary)
     = [ascii ''Ann'', [], ascii ''Summary'', ascii '' Skills'', []]"
    by (simp add: spaced_summary_def eval_defs)
  have h: "ascii '' Skills'' \<notin> set headings"
    by (simp add: headings_def ascii_def)
  have s: "strip (ascii ''Ann'') \<notin> set headings" "strip [] \<notin> set headings"
    "strip (ascii ''Summary'') \<in> set headings" "strip (ascii '' Skills'') \<in> set headings"
    by (simp_all add: strip_def headings_def ascii_def isspace_def)
  have w: "break_at_spaces (ascii ''Ann'') f n w = [ascii ''Ann'']"
    "break_at_spaces [] f n w = []" for f n w
    by (simp_all add: break_at_spaces_def ascii_def isspace_def)
  have "pdf_canvas break_at_spaces (payload_of spaced_summary)
     = [SetFont (ascii ''Helvetica-Bold'') 14,
        DrawString 40 752 (ascii ''Ann''),
        SetFont (ascii ''Helvetica-Bold'') 12, DrawString 40 738 (ascii ''Summary''),
        SetFont (ascii ''Helvetica'') 11,
        SetFont (ascii ''Helvetica-Bold'') 12, DrawString 40 720 (ascii '' Skills''),
        SetFont (ascii ''Helvetica'') 11,
        ShowPage, Save]"
    by (simp add: pdf_canvas_def payload_of_def l letter_def pdf_line_eq s w sub_draws_def
        Let_def)
  with l h show ?thesis by blast
qed

section \<open>Claims about the suggestion generator\<close>





section \<open>Claims about the exporters\<close>

text \<open>
  C7. Two payloads with the same data give the same export, whatever their template,
  colour and font: the same text bytes, the same document handed to the document
  library, the same canvas calls handed to the PDF library, and so the same bytes from
  each library's serialiser.
\<close>

theorem exporters_ignore_cosmetics:
  assumes "data p = data q"
  shows "export_txt p = export_txt q
       \<and> export_docx save_docx p = export_docx save_docx q
       \<and> export_pdf simpleSplit save_pdf p = export_pdf simpleSplit save_pdf q"
  using assms by (simp add: export_txt_def export_docx_def export_pdf_def pdf_canvas_def)

theorem exporters_ignore_cosmetics_witness:
  "data (payload_of ann_lee)
     = data \<lparr>data = ann_lee, template = ascii ''modern'', color = ascii ''rose'',
             font = ascii ''serif''\<rparr>
   \<and> export_txt (payload_of ann_lee)
     = export_txt \<lparr>data = ann_lee, template = ascii ''modern'', color = ascii ''rose'',
                   font = ascii ''serif''\<rparr>
   \<and> export_docx (\<lambda>doc. Inr []) (payload_of ann_lee)
     = export_docx (\<lambda>doc. Inr [])
         \<lparr>data = ann_lee, template = ascii ''modern'', color = ascii ''rose'',
          font = ascii ''serif''\<rparr>
   \<and> export_pdf break_at_spaces (\<lambda>ops. Inr []) (payload_of ann_lee)
     = export_pdf break_at_spaces (\<lambda>ops. Inr [])
         \<lparr>data = ann_lee, template = ascii ''modern'', color = ascii ''rose'',
          font = ascii ''serif''\<rparr>"
  using exporters_ignore_cosmetics [of "payload_of ann_lee"
      "\<lparr>data = ann_lee, template = ascii ''modern'', color = ascii ''rose'',
        font = ascii ''serif''\<rparr>" "\<lambda>doc. Inr []" break_at_spaces "\<lambda>ops. Inr []"]
  by (simp add: payload_of_def)

end
